theory Spec2Isabelle
  imports Main "HOL-Library.Stream"
begin

section \<open>Guitar chord progression generator: embedding of main.py\<close>

subsection \<open>Python runtime: errors, list operations, the random source\<close>

text \<open>
  An exception is a value of \<open>py_error\<close>: \<open>ValueError\<close> carries its message,
  \<open>IndexError\<close> is what an out-of-range subscript and \<open>random.choice\<close> on an
  empty sequence raise. A function that can raise returns \<open>py_error + 'a\<close>,
  with \<open>Inl\<close> for the exception.
\<close>

datatype py_error = ValueError string | IndexError

text \<open>\<open>xs.index(x)\<close>: the position of the first element equal to \<open>x\<close>, if any.\<close>

fun list_index :: "'a list \<Rightarrow> 'a \<Rightarrow> nat option" where
  "list_index [] x = None"
| "list_index (y # ys) x =
     (if y = x then Some 0 else map_option Suc (list_index ys x))"

text \<open>\<open>xs[i]\<close>: a negative subscript counts from the end, out of range raises.\<close>

definition py_get :: "'a list \<Rightarrow> int \<Rightarrow> py_error + 'a" where
  "py_get xs i =
     (if 0 \<le> i \<and> i < int (length xs) then Inr (xs ! nat i)
      else if - int (length xs) \<le> i \<and> i < 0 then Inr (xs ! nat (int (length xs) + i))
      else Inl IndexError)"

text \<open>\<open>sep.join(xs)\<close> on a list of strings.\<close>

fun join :: "string \<Rightarrow> string list \<Rightarrow> string" where
  "join sep [] = []"
| "join sep [x] = x"
| "join sep (x # y # ys) = x @ sep @ join sep (y # ys)"

text \<open>
  The process-wide random source is an infinite stream of raw draws. \<open>random.choice\<close>
  takes one draw, reduces it below the length of the sequence and returns the element
  there together with the advanced source; on an empty sequence it raises.
\<close>

type_synonym rng = "nat stream"

definition choice :: "'a list \<Rightarrow> rng \<Rightarrow> py_error + ('a \<times> rng)" where
  "choice seq s =
     (if seq = [] then Inl IndexError
      else Inr (seq ! (shd s mod length seq), stl s))"

subsection \<open>Static tables\<close>

definition NOTES :: "string list" where
  "NOTES = [''C'', ''C#'', ''D'', ''D#'', ''E'', ''F'', ''F#'', ''G'', ''G#'', ''A'', ''A#'', ''B'']"

definition MAJOR_OFFSETS :: "int list" where
  "MAJOR_OFFSETS = [0, 2, 4, 5, 7, 9, 11]"

definition MINOR_OFFSETS :: "int list" where
  "MINOR_OFFSETS = [0, 2, 3, 5, 7, 8, 10]"

definition MAJOR_QUALITIES :: "string list" where
  "MAJOR_QUALITIES = [''maj'', ''min'', ''min'', ''maj'', ''maj'', ''min'', ''dim'']"

definition MINOR_QUALITIES :: "string list" where
  "MINOR_QUALITIES = [''min'', ''dim'', ''maj'', ''min'', ''min'', ''maj'', ''maj'']"

definition MAJOR_PROGRESSIONS :: "(string list \<times> int list) list" where
  "MAJOR_PROGRESSIONS =
     [([''I'', ''V'', ''vi'', ''IV''], [1, 5, 6, 4]),
      ([''I'', ''vi'', ''IV'', ''V''], [1, 6, 4, 5]),
      ([''vi'', ''IV'', ''I'', ''V''], [6, 4, 1, 5]),
      ([''I'', ''IV'', ''V'', ''I''], [1, 4, 5, 1])]"

definition MINOR_PROGRESSIONS :: "(string list \<times> int list) list" where
  "MINOR_PROGRESSIONS =
     [([''i'', ''VI'', ''III'', ''VII''], [1, 6, 3, 7]),
      ([''i'', ''iv'', ''v'', ''i''], [1, 4, 5, 1]),
      ([''i'', ''VII'', ''VI'', ''VII''], [1, 7, 6, 7]),
      ([''i'', ''VI'', ''VII'', ''i''], [1, 6, 7, 1])]"

subsection \<open>The pipeline\<close>

text \<open>\<open>pick_key_and_mode\<close>: two draws, the root first.\<close>

definition pick_key_and_mode :: "rng \<Rightarrow> py_error + ((string \<times> string) \<times> rng)" where
  "pick_key_and_mode s =
     (case choice NOTES s of
        Inl e \<Rightarrow> Inl e
      | Inr (root, s1) \<Rightarrow>
          (case choice [''major'', ''minor''] s1 of
             Inl e \<Rightarrow> Inl e
           | Inr (mode, s2) \<Rightarrow> Inr ((root, mode), s2)))"

text \<open>
  The \<open>for\<close> loop of \<open>build_scale\<close>: the remaining offsets and the scale built so far.
\<close>

fun build_scale_loop :: "int \<Rightarrow> int list \<Rightarrow> string list \<Rightarrow> py_error + string list" where
  "build_scale_loop root_index [] scale = Inr scale"
| "build_scale_loop root_index (semitone_offset # offsets) scale =
     (let note_index = (root_index + semitone_offset) mod int (length NOTES)
      in case py_get NOTES note_index of
           Inl e \<Rightarrow> Inl e
         | Inr note \<Rightarrow> build_scale_loop root_index offsets (scale @ [note]))"

text \<open>
  \<open>build_scale\<close>: \<open>NOTES.index(root)\<close> raises \<open>ValueError\<close> for an unknown root (the
  interpreter's message is abbreviated here).
\<close>

definition build_scale :: "string \<Rightarrow> string \<Rightarrow> py_error + string list" where
  "build_scale root mode =
     (case list_index NOTES root of
        None \<Rightarrow> Inl (ValueError ''x not in list'')
      | Some root_index \<Rightarrow>
          (let offsets = (if mode = ''major'' then MAJOR_OFFSETS else MINOR_OFFSETS)
           in build_scale_loop (int root_index) offsets []))"

definition chord_name :: "string \<Rightarrow> string \<Rightarrow> string" where
  "chord_name root_note quality =
     (if quality = ''maj'' then root_note
      else if quality = ''min'' then root_note @ ''m''
      else if quality = ''dim'' then root_note @ ''dim''
      else root_note)"

definition degree_to_chord :: "string list \<Rightarrow> int \<Rightarrow> string \<Rightarrow> py_error + string" where
  "degree_to_chord scale degree mode =
     (if degree < 1 \<or> degree > 7 then Inl (ValueError ''Degree must be between 1 and 7'')
      else
        (let qualities = (if mode = ''major'' then MAJOR_QUALITIES else MINOR_QUALITIES);
             scale_index = degree - 1
         in case py_get scale scale_index of
              Inl e \<Rightarrow> Inl e
            | Inr root_note \<Rightarrow>
                (case py_get qualities scale_index of
                   Inl e \<Rightarrow> Inl e
                 | Inr quality \<Rightarrow> Inr (chord_name root_note quality))))"

definition pick_progression :: "string \<Rightarrow> rng \<Rightarrow> py_error + ((string list \<times> int list) \<times> rng)" where
  "pick_progression mode s =
     (if mode = ''major'' then choice MAJOR_PROGRESSIONS s
      else choice MINOR_PROGRESSIONS s)"

text \<open>
  The list comprehension of \<open>generate_progression\<close>: one \<open>degree_to_chord\<close> call per
  degree, in order, stopping at the first exception.
\<close>

fun chords_of :: "string list \<Rightarrow> string \<Rightarrow> int list \<Rightarrow> py_error + string list" where
  "chords_of scale mode [] = Inr []"
| "chords_of scale mode (d # degrees) =
     (case degree_to_chord scale d mode of
        Inl e \<Rightarrow> Inl e
      | Inr c \<Rightarrow>
          (case chords_of scale mode degrees of
             Inl e \<Rightarrow> Inl e
           | Inr cs \<Rightarrow> Inr (c # cs)))"

text \<open>
  \<open>generate_progression\<close>: standard output is the list of lines printed so far, each
  \<open>print\<close> call adding one. Every \<open>print\<close> comes after the last call that can raise.
\<close>

definition generate_progression :: "rng \<Rightarrow> string list \<Rightarrow> py_error + (string list \<times> rng)" where
  "generate_progression s out =
     (case pick_key_and_mode s of
        Inl e \<Rightarrow> Inl e
      | Inr ((root, mode), s1) \<Rightarrow>
          (case build_scale root mode of
             Inl e \<Rightarrow> Inl e
           | Inr scale \<Rightarrow>
               (case pick_progression mode s1 of
                  Inl e \<Rightarrow> Inl e
                | Inr ((roman, degrees), s2) \<Rightarrow>
                    (case chords_of scale mode degrees of
                       Inl e \<Rightarrow> Inl e
                     | Inr chords \<Rightarrow>
                         Inr (out @
                              [''Random Chord Progression Generator'',
                               ''Key: '' @ root @ '' '' @ mode,
                               ''Progression: '' @ join '' '' roman,
                               ''Chords: '' @ join '' '' chords,
                               ''Tip: Try 4 beats per chord.''], s2)))))"

section \<open>Properties\<close>

subsection \<open>Runtime lemmas\<close>

lemma length_NOTES: "length NOTES = 12"
  by (simp add: NOTES_def)

lemma py_get_in_range: "0 \<le> i \<Longrightarrow> i < int (length xs) \<Longrightarrow> py_get xs i = Inr (xs ! nat i)"
  by (simp add: py_get_def)

lemma py_get_NOTES_mod: "py_get NOTES (x mod 12) = Inr (NOTES ! nat (x mod 12))"
  by (rule py_get_in_range) (simp_all add: length_NOTES)

lemma NOTES_nth_mem: "NOTES ! nat (x mod 12) \<in> set NOTES"
  by (rule nth_mem) (simp add: length_NOTES)

lemma list_index_Some:
  "x \<in> set xs \<Longrightarrow> \<exists>k. list_index xs x = Some k \<and> k < length xs \<and> xs ! k = x"
  by (induction xs) auto

lemma choice_mem: "seq \<noteq> [] \<Longrightarrow> \<exists>x. choice seq s = Inr (x, stl s) \<and> x \<in> set seq"
  by (simp add: choice_def)

subsection \<open>The scale builder\<close>

text \<open>The loop never raises: it appends one note per offset to what it was given.\<close>

lemma build_scale_loop_eq:
  "build_scale_loop k offs acc = Inr (acc @ map (\<lambda>off. NOTES ! nat ((k + off) mod 12)) offs)"
  by (induction offs arbitrary: acc) (simp_all add: length_NOTES py_get_NOTES_mod)

lemma build_scale_eq:
  "list_index NOTES r = Some k \<Longrightarrow>
   build_scale r m = Inr (map (\<lambda>off. NOTES ! nat ((int k + off) mod 12))
                        (if m = ''major'' then MAJOR_OFFSETS else MINOR_OFFSETS))"
  by (simp add: build_scale_def build_scale_loop_eq)

text \<open>
  C1. For a root \<open>r\<close> among the twelve pitch classes, at position \<open>k\<close> of \<open>NOTES\<close>, and a
  mode that is major or minor, \<open>build_scale\<close> returns a scale of exactly seven notes
  whose \<open>i\<close>-th note is the one at position \<open>(k + OFFSETS ! i) mod 12\<close> of \<open>NOTES\<close>, with
  the offsets of the mode; every note is one of the twelve and the first is \<open>r\<close>.
\<close>

theorem build_scale_offsets:
  assumes "r \<in> set NOTES" and "m = ''major'' \<or> m = ''minor''"
  shows "\<exists>k s. list_index NOTES r = Some k \<and> k < 12 \<and> NOTES ! k = r \<and>
           build_scale r m = Inr s \<and> length s = 7 \<and>
           (\<forall>i<7. s ! i = NOTES ! nat ((int k +
                (if m = ''major'' then MAJOR_OFFSETS else MINOR_OFFSETS) ! i) mod 12)) \<and>
           set s \<subseteq> set NOTES \<and> s ! 0 = r"
proof -
  from assms(1) obtain k where k: "list_index NOTES r = Some k" "k < 12" "NOTES ! k = r"
    using list_index_Some [of r NOTES] by (auto simp: length_NOTES)
  let ?offs = "if m = ''major'' then MAJOR_OFFSETS else MINOR_OFFSETS"
  let ?s = "map (\<lambda>off. NOTES ! nat ((int k + off) mod 12)) ?offs"
  have len: "length ?offs = 7"
    by (simp add: MAJOR_OFFSETS_def MINOR_OFFSETS_def)
  have hd0: "?offs ! 0 = 0"
    by (simp add: MAJOR_OFFSETS_def MINOR_OFFSETS_def)
  have bs: "build_scale r m = Inr ?s"
    by (rule build_scale_eq [OF k(1)])
  have nth: "\<forall>i<7. ?s ! i = NOTES ! nat ((int k + ?offs ! i) mod 12)"
    using len by simp
  have sub: "set ?s \<subseteq> set NOTES"
    using NOTES_nth_mem by auto
  have first: "?s ! 0 = r"
    using k(2,3) len hd0 by simp
  show ?thesis
    using k bs len nth sub first by (intro exI [of _ k] exI [of _ ?s]) simp
qed

theorem build_scale_offsets_witness:
  "''C'' \<in> set NOTES \<and> (''major'' = ''major'' \<or> ''major'' = ''minor'') \<and>
   (\<exists>k s. list_index NOTES ''C'' = Some k \<and> k < 12 \<and> NOTES ! k = ''C'' \<and>
           build_scale ''C'' ''major'' = Inr s \<and> length s = 7 \<and>
           (\<forall>i<7. s ! i = NOTES ! nat ((int k +
                (if ''major'' = ''major'' then MAJOR_OFFSETS else MINOR_OFFSETS) ! i) mod 12)) \<and>
           set s \<subseteq> set NOTES \<and> s ! 0 = ''C'')"
proof -
  have h1: "''C'' \<in> set NOTES" by (simp add: NOTES_def)
  have h2: "''major'' = ''major'' \<or> ''major'' = ''minor''" by simp
  show ?thesis using h1 h2 build_scale_offsets [OF h1 h2] by blast
qed

subsection \<open>The chord renderer\<close>

lemma degree_to_chord_in_range:
  assumes "1 \<le> d" and "d \<le> 7" and "length scale = 7"
  shows "degree_to_chord scale d mode =
           Inr (chord_name (scale ! nat (d - 1))
                  ((if mode = ''major'' then MAJOR_QUALITIES else MINOR_QUALITIES) ! nat (d - 1)))"
proof -
  have a: "py_get scale (d - 1) = Inr (scale ! nat (d - 1))"
    using assms by (intro py_get_in_range) simp_all
  have b: "py_get (if mode = ''major'' then MAJOR_QUALITIES else MINOR_QUALITIES) (d - 1)
             = Inr ((if mode = ''major'' then MAJOR_QUALITIES else MINOR_QUALITIES) ! nat (d - 1))"
    using assms(1,2) by (intro py_get_in_range) (simp_all add: MAJOR_QUALITIES_def MINOR_QUALITIES_def)
  show ?thesis
    using assms(1,2) a b by (simp add: degree_to_chord_def Let_def)
qed

lemma degree_to_chord_out_of_range:
  "d < 1 \<or> 7 < d \<Longrightarrow>
   degree_to_chord scale d mode = Inl (ValueError ''Degree must be between 1 and 7'')"
  by (simp add: degree_to_chord_def)

lemma degree_to_chord_eval:
  "1 \<le> d \<Longrightarrow> d \<le> 7 \<Longrightarrow> py_get scale (d - 1) = Inr n \<Longrightarrow>
   py_get (if mode = ''major'' then MAJOR_QUALITIES else MINOR_QUALITIES) (d - 1) = Inr q \<Longrightarrow>
   degree_to_chord scale d mode = Inr (chord_name n q)"
  by (simp add: degree_to_chord_def Let_def)

lemma degree_to_chord_no_degree_error:
  "1 \<le> d \<Longrightarrow> d \<le> 7 \<Longrightarrow> degree_to_chord scale d mode \<noteq> Inl (ValueError msg)"
  by (simp add: degree_to_chord_def py_get_def Let_def split: sum.splits)

text \<open>
  C2. On a scale of seven notes, for any mode, \<open>degree_to_chord\<close> returns a chord for
  every degree from 1 to 7 and raises for every other degree, 0 and 8 among them; what it
  raises there is the \<open>ValueError\<close> of its range check, the program's out-of-range
  error.
\<close>

theorem degree_to_chord_raises_iff:
  assumes "length scale = 7"
  shows "if 1 \<le> d \<and> d \<le> 7
         then \<exists>c. degree_to_chord scale d mode = Inr c
         else degree_to_chord scale d mode = Inl (ValueError ''Degree must be between 1 and 7'')"
proof (cases "1 \<le> d \<and> d \<le> 7")
  case True
  then show ?thesis using degree_to_chord_in_range [of d scale mode] assms by simp
next
  case False
  then have "d < 1 \<or> 7 < d" by linarith
  then show ?thesis using False degree_to_chord_out_of_range [of d scale mode] by simp
qed

theorem degree_to_chord_raises_iff_witness:
  "length [''C'', ''D'', ''E'', ''F'', ''G'', ''A'', ''B''] = 7 \<and>
   (\<exists>c. degree_to_chord [''C'', ''D'', ''E'', ''F'', ''G'', ''A'', ''B''] 7 ''major'' = Inr c) \<and>
   degree_to_chord [''C'', ''D'', ''E'', ''F'', ''G'', ''A'', ''B''] 0 ''major''
     = Inl (ValueError ''Degree must be between 1 and 7'') \<and>
   degree_to_chord [''C'', ''D'', ''E'', ''F'', ''G'', ''A'', ''B''] 8 ''minor''
     = Inl (ValueError ''Degree must be between 1 and 7'')"
proof -
  let ?sc = "[''C'', ''D'', ''E'', ''F'', ''G'', ''A'', ''B'']"
  have h: "length ?sc = 7" by simp
  show ?thesis
    using h degree_to_chord_raises_iff [OF h, of 7 "''major''"]
      degree_to_chord_raises_iff [OF h, of 0 "''major''"]
      degree_to_chord_raises_iff [OF h, of 8 "''minor''"]
    by simp
qed

text \<open>
  C3. \<open>chord_name\<close> returns the pitch class alone for quality \<open>maj\<close>, the pitch class
  followed by \<open>m\<close> for \<open>min\<close>, followed by \<open>dim\<close> for \<open>dim\<close>, and the bare pitch
  class again for any other quality.
\<close>

theorem chord_name_cases:
  "chord_name p ''maj'' = p \<and> chord_name p ''min'' = p @ ''m'' \<and>
   chord_name p ''dim'' = p @ ''dim'' \<and>
   (q \<noteq> ''maj'' \<and> q \<noteq> ''min'' \<and> q \<noteq> ''dim'' \<longrightarrow> chord_name p q = p)"
  by (simp add: chord_name_def)

theorem chord_name_cases_witness:
  "chord_name ''C'' ''maj'' = ''C'' \<and> chord_name ''C'' ''min'' = ''Cm'' \<and>
   chord_name ''C'' ''dim'' = ''Cdim'' \<and>
   ''aug'' \<noteq> ''maj'' \<and> ''aug'' \<noteq> ''min'' \<and> ''aug'' \<noteq> ''dim'' \<and> chord_name ''C'' ''aug'' = ''C''"
  using chord_name_cases [of "''C''" "''aug''"] by simp

subsection \<open>The reference scenarios\<close>

lemma build_scale_C_major:
  "build_scale ''C'' ''major'' = Inr [''C'', ''D'', ''E'', ''F'', ''G'', ''A'', ''B'']"
  by (simp add: build_scale_def build_scale_loop_eq NOTES_def MAJOR_OFFSETS_def)

lemma build_scale_A_minor:
  "build_scale ''A'' ''minor'' = Inr [''A'', ''B'', ''C'', ''D'', ''E'', ''F'', ''G'']"
  by (simp add: build_scale_def build_scale_loop_eq NOTES_def MINOR_OFFSETS_def)

text \<open>
  C4. C major is the scale C D E F G A B, with chords C, Dm, G and Am on degrees 1, 2, 5
  and 6, and the degrees 1 5 6 4 render to C G Am F; A minor is the scale A B C D E F G,
  with Am on degree 1 and F on degree 6.
\<close>

theorem reference_scenarios:
  "build_scale ''C'' ''major'' = Inr [''C'', ''D'', ''E'', ''F'', ''G'', ''A'', ''B''] \<and>
   degree_to_chord [''C'', ''D'', ''E'', ''F'', ''G'', ''A'', ''B''] 1 ''major'' = Inr ''C'' \<and>
   degree_to_chord [''C'', ''D'', ''E'', ''F'', ''G'', ''A'', ''B''] 2 ''major'' = Inr ''Dm'' \<and>
   degree_to_chord [''C'', ''D'', ''E'', ''F'', ''G'', ''A'', ''B''] 5 ''major'' = Inr ''G'' \<and>
   degree_to_chord [''C'', ''D'', ''E'', ''F'', ''G'', ''A'', ''B''] 6 ''major'' = Inr ''Am'' \<and>
   chords_of [''C'', ''D'', ''E'', ''F'', ''G'', ''A'', ''B''] ''major'' [1, 5, 6, 4]
     = Inr [''C'', ''G'', ''Am'', ''F''] \<and>
   build_scale ''A'' ''minor'' = Inr [''A'', ''B'', ''C'', ''D'', ''E'', ''F'', ''G''] \<and>
   degree_to_chord [''A'', ''B'', ''C'', ''D'', ''E'', ''F'', ''G''] 1 ''minor'' = Inr ''Am'' \<and>
   degree_to_chord [''A'', ''B'', ''C'', ''D'', ''E'', ''F'', ''G''] 6 ''minor'' = Inr ''F''"
proof -
  let ?c = "[''C'', ''D'', ''E'', ''F'', ''G'', ''A'', ''B'']"
  let ?a = "[''A'', ''B'', ''C'', ''D'', ''E'', ''F'', ''G'']"
  have c1: "degree_to_chord ?c 1 ''major'' = Inr ''C''"
    by (simp add: degree_to_chord_def py_get_def MAJOR_QUALITIES_def chord_name_def)
  have c2: "degree_to_chord ?c 2 ''major'' = Inr ''Dm''"
    by (simp add: degree_to_chord_def py_get_def MAJOR_QUALITIES_def chord_name_def)
  have c4: "degree_to_chord ?c 4 ''major'' = Inr ''F''"
    by (simp add: degree_to_chord_def py_get_def MAJOR_QUALITIES_def chord_name_def)
  have c5: "degree_to_chord ?c 5 ''major'' = Inr ''G''"
    by (simp add: degree_to_chord_def py_get_def MAJOR_QUALITIES_def chord_name_def)
  have c6: "degree_to_chord ?c 6 ''major'' = Inr ''Am''"
    by (simp add: degree_to_chord_def py_get_def MAJOR_QUALITIES_def chord_name_def)
  have cs: "chords_of ?c ''major'' [1, 5, 6, 4] = Inr [''C'', ''G'', ''Am'', ''F'']"
    by (simp add: c1 c4 c5 c6)
  have a1: "degree_to_chord ?a 1 ''minor'' = Inr ''Am''"
    by (simp add: degree_to_chord_def py_get_def MINOR_QUALITIES_def chord_name_def)
  have a6: "degree_to_chord ?a 6 ''minor'' = Inr ''F''"
    by (simp add: degree_to_chord_def py_get_def MINOR_QUALITIES_def chord_name_def)
  show ?thesis
    using build_scale_C_major build_scale_A_minor c1 c2 c5 c6 cs a1 a6 by blast
qed

subsection \<open>The progression tables\<close>

lemma MAJOR_degrees: "t \<in> set MAJOR_PROGRESSIONS \<Longrightarrow> d \<in> set (snd t) \<Longrightarrow> 1 \<le> d \<and> d \<le> 7"
  by (auto simp: MAJOR_PROGRESSIONS_def)

lemma MINOR_degrees: "t \<in> set MINOR_PROGRESSIONS \<Longrightarrow> d \<in> set (snd t) \<Longrightarrow> 1 \<le> d \<and> d \<le> 7"
  by (auto simp: MINOR_PROGRESSIONS_def)

lemma table_degrees:
  "t \<in> set (MAJOR_PROGRESSIONS @ MINOR_PROGRESSIONS) \<Longrightarrow> d \<in> set (snd t) \<Longrightarrow> 1 \<le> d \<and> d \<le> 7"
  using MAJOR_degrees [of t d] MINOR_degrees [of t d] by (simp only: set_append Un_iff) blast

lemma chords_of_in_range:
  "length scale = 7 \<Longrightarrow> \<forall>d \<in> set degrees. 1 \<le> d \<and> d \<le> 7 \<Longrightarrow>
   \<exists>chords. chords_of scale mode degrees = Inr chords \<and> length chords = length degrees"
proof (induction degrees)
  case Nil
  then show ?case by simp
next
  case (Cons d degrees)
  then obtain cs where cs: "chords_of scale mode degrees = Inr cs" "length cs = length degrees"
    by auto
  from Cons.prems have "1 \<le> d" "d \<le> 7" by simp_all
  then obtain c where "degree_to_chord scale d mode = Inr c"
    using degree_to_chord_in_range [of d scale mode] Cons.prems(1) by blast
  with cs show ?case by simp
qed

lemma chords_of_no_degree_error:
  "\<forall>d \<in> set degrees. 1 \<le> d \<and> d \<le> 7 \<Longrightarrow> chords_of scale mode degrees \<noteq> Inl (ValueError msg)"
proof (induction degrees)
  case Nil
  then show ?case by simp
next
  case (Cons d degrees)
  then have "degree_to_chord scale d mode \<noteq> Inl (ValueError msg)"
    using degree_to_chord_no_degree_error [of d scale mode msg] by simp
  moreover have "chords_of scale mode degrees \<noteq> Inl (ValueError msg)"
    using Cons by simp
  ultimately show ?case by (auto split: sum.splits)
qed

text \<open>
  C7. Each of the two progression tables holds four templates, and in every template
  the roman numerals and the degrees are sequences of the same length, four.
\<close>

theorem progression_tables_shape:
  "length MAJOR_PROGRESSIONS = 4 \<and> length MINOR_PROGRESSIONS = 4 \<and>
   (\<forall>t \<in> set (MAJOR_PROGRESSIONS @ MINOR_PROGRESSIONS).
      length (fst t) = length (snd t) \<and> length (fst t) = 4)"
  by (simp add: MAJOR_PROGRESSIONS_def MINOR_PROGRESSIONS_def)

theorem progression_tables_shape_witness:
  "([''I'', ''V'', ''vi'', ''IV''], [1, 5, 6, 4]) \<in> set (MAJOR_PROGRESSIONS @ MINOR_PROGRESSIONS) \<and>
   length [''I'', ''V'', ''vi'', ''IV''] = length [1, 5, 6, 4 :: int] \<and>
   length [''I'', ''V'', ''vi'', ''IV''] = 4"
proof -
  let ?t = "([''I'', ''V'', ''vi'', ''IV''], [1, 5, 6, 4 :: int])"
  have h: "?t \<in> set (MAJOR_PROGRESSIONS @ MINOR_PROGRESSIONS)"
    by (simp add: MAJOR_PROGRESSIONS_def)
  have "length (fst ?t) = length (snd ?t) \<and> length (fst ?t) = 4"
    using h progression_tables_shape by blast
  with h show ?thesis by simp
qed

text \<open>
  C6. Both quality tables hold only \<open>maj\<close>, \<open>min\<close> and \<open>dim\<close>. So for a degree from 1 to
  7 and any mode, the quality that \<open>degree_to_chord\<close> looks up is one of the three, and
  the chord it returns is \<open>chord_name\<close> at that quality: the fallback of \<open>chord_name\<close>
  is not reached.
\<close>

theorem quality_tables_closed:
  "set MAJOR_QUALITIES \<subseteq> {''maj'', ''min'', ''dim''} \<and>
   set MINOR_QUALITIES \<subseteq> {''maj'', ''min'', ''dim''} \<and>
   (1 \<le> d \<and> d \<le> 7 \<longrightarrow>
      (\<exists>q. py_get (if mode = ''major'' then MAJOR_QUALITIES else MINOR_QUALITIES) (d - 1) = Inr q \<and>
           q \<in> {''maj'', ''min'', ''dim''} \<and>
           (\<forall>scale root_note. py_get scale (d - 1) = Inr root_note \<longrightarrow>
              degree_to_chord scale d mode = Inr (chord_name root_note q))))"
proof -
  let ?qs = "if mode = ''major'' then MAJOR_QUALITIES else MINOR_QUALITIES"
  have M: "set MAJOR_QUALITIES \<subseteq> {''maj'', ''min'', ''dim''}"
    by (simp add: MAJOR_QUALITIES_def)
  have m: "set MINOR_QUALITIES \<subseteq> {''maj'', ''min'', ''dim''}"
    by (simp add: MINOR_QUALITIES_def)
  have "\<exists>q. py_get ?qs (d - 1) = Inr q \<and> q \<in> {''maj'', ''min'', ''dim''} \<and>
           (\<forall>scale root_note. py_get scale (d - 1) = Inr root_note \<longrightarrow>
              degree_to_chord scale d mode = Inr (chord_name root_note q))"
    if d: "1 \<le> d \<and> d \<le> 7"
  proof -
    have len: "length ?qs = 7"
      by (simp add: MAJOR_QUALITIES_def MINOR_QUALITIES_def)
    have g: "py_get ?qs (d - 1) = Inr (?qs ! nat (d - 1))"
      using d len by (intro py_get_in_range) simp_all
    have "nat (d - 1) < 7"
      using d by linarith
    then have "nat (d - 1) < length ?qs"
      by (simp only: len)
    then have "?qs ! nat (d - 1) \<in> set ?qs"
      by (rule nth_mem)
    then have mem: "?qs ! nat (d - 1) \<in> {''maj'', ''min'', ''dim''}"
      using M m by (auto split: if_splits)
    have "\<forall>scale root_note. py_get scale (d - 1) = Inr root_note \<longrightarrow>
              degree_to_chord scale d mode = Inr (chord_name root_note (?qs ! nat (d - 1)))"
      using d g degree_to_chord_eval [of d _ _ mode] by blast
    with g mem show ?thesis by blast
  qed
  with M m show ?thesis by blast
qed

theorem quality_tables_closed_witness:
  "(1::int) \<le> 7 \<and> (7::int) \<le> 7 \<and>
   py_get (if ''major'' = ''major'' then MAJOR_QUALITIES else MINOR_QUALITIES) (7 - 1) = Inr ''dim'' \<and>
   ''dim'' \<in> {''maj'', ''min'', ''dim''} \<and>
   py_get [''C'', ''D'', ''E'', ''F'', ''G'', ''A'', ''B''] (7 - 1) = Inr ''B'' \<and>
   degree_to_chord [''C'', ''D'', ''E'', ''F'', ''G'', ''A'', ''B''] 7 ''major''
     = Inr (chord_name ''B'' ''dim'')"
proof -
  have q: "py_get (if ''major'' = ''major'' then MAJOR_QUALITIES else MINOR_QUALITIES) (7 - 1)
             = Inr ''dim''"
    by (simp add: py_get_def MAJOR_QUALITIES_def)
  have n: "py_get [''C'', ''D'', ''E'', ''F'', ''G'', ''A'', ''B''] (7 - 1) = Inr ''B''"
    by (simp add: py_get_def)
  show ?thesis
    using q n quality_tables_closed [of 7 "''major''"] by auto
qed

subsection \<open>The orchestrator\<close>

lemma pick_key_and_mode_ok:
  "\<exists>root mode s1. pick_key_and_mode s = Inr ((root, mode), s1) \<and> root \<in> set NOTES \<and>
     (mode = ''major'' \<or> mode = ''minor'')"
proof -
  have n: "NOTES \<noteq> []" by (simp add: NOTES_def)
  obtain root where r: "choice NOTES s = Inr (root, stl s)" "root \<in> set NOTES"
    using choice_mem [OF n] by blast
  obtain mode where m: "choice [''major'', ''minor''] (stl s) = Inr (mode, stl (stl s))"
      "mode \<in> set [''major'', ''minor'']"
    using choice_mem [of "[''major'', ''minor'']" "stl s"] by blast
  from m(2) have "mode = ''major'' \<or> mode = ''minor''" by simp
  with r m(1) show ?thesis by (simp add: pick_key_and_mode_def)
qed

lemma pick_progression_ok:
  "\<exists>t s'. pick_progression mode s = Inr (t, s') \<and>
     t \<in> set (if mode = ''major'' then MAJOR_PROGRESSIONS else MINOR_PROGRESSIONS)"
proof -
  have "MAJOR_PROGRESSIONS \<noteq> []" "MINOR_PROGRESSIONS \<noteq> []"
    by (simp_all add: MAJOR_PROGRESSIONS_def MINOR_PROGRESSIONS_def)
  then show ?thesis
    using choice_mem [of MAJOR_PROGRESSIONS s] choice_mem [of MINOR_PROGRESSIONS s]
    by (auto simp: pick_progression_def)
qed

lemma build_scale_ok:
  "root \<in> set NOTES \<Longrightarrow> \<exists>scale. build_scale root mode = Inr scale \<and> length scale = 7"
proof -
  assume "root \<in> set NOTES"
  then obtain k where "list_index NOTES root = Some k"
    using list_index_Some by fastforce
  then show ?thesis
    using build_scale_eq [of root k mode] by (simp add: MAJOR_OFFSETS_def MINOR_OFFSETS_def)
qed

lemma generate_progression_lines:
  "\<exists>root mode s1 scale roman degrees s2 chords.
     pick_key_and_mode s = Inr ((root, mode), s1) \<and>
     root \<in> set NOTES \<and> (mode = ''major'' \<or> mode = ''minor'') \<and>
     build_scale root mode = Inr scale \<and>
     pick_progression mode s1 = Inr ((roman, degrees), s2) \<and>
     chords_of scale mode degrees = Inr chords \<and>
     generate_progression s out =
       Inr (out @ [''Random Chord Progression Generator'',
                   ''Key: '' @ root @ '' '' @ mode,
                   ''Progression: '' @ join '' '' roman,
                   ''Chords: '' @ join '' '' chords,
                   ''Tip: Try 4 beats per chord.''], s2)"
proof -
  obtain root mode s1 where k: "pick_key_and_mode s = Inr ((root, mode), s1)"
      "root \<in> set NOTES" "mode = ''major'' \<or> mode = ''minor''"
    using pick_key_and_mode_ok by blast
  obtain scale where sc: "build_scale root mode = Inr scale" "length scale = 7"
    using build_scale_ok [OF k(2)] by blast
  obtain t s2 where p: "pick_progression mode s1 = Inr (t, s2)"
      "t \<in> set (if mode = ''major'' then MAJOR_PROGRESSIONS else MINOR_PROGRESSIONS)"
    using pick_progression_ok by blast
  obtain roman degrees where t: "t = (roman, degrees)" by (cases t)
  from p(2) have "t \<in> set (MAJOR_PROGRESSIONS @ MINOR_PROGRESSIONS)"
    by (simp split: if_splits)
  then have "\<forall>d \<in> set degrees. 1 \<le> d \<and> d \<le> 7"
    using table_degrees [of t] t by simp
  then obtain chords where ch: "chords_of scale mode degrees = Inr chords"
    using chords_of_in_range [OF sc(2)] by blast
  have "generate_progression s out =
       Inr (out @ [''Random Chord Progression Generator'',
                   ''Key: '' @ root @ '' '' @ mode,
                   ''Progression: '' @ join '' '' roman,
                   ''Chords: '' @ join '' '' chords,
                   ''Tip: Try 4 beats per chord.''], s2)"
    using k(1) sc(1) p(1) t ch by (simp add: generate_progression_def)
  with k sc(1) p(1) t ch show ?thesis by blast
qed

text \<open>
  C5. Every degree of every template of the two progression tables lies between 1 and 7.
  So \<open>degree_to_chord\<close> on such a degree, the rendering of such a template, and the
  orchestrator as a whole never raise the out-of-range \<open>ValueError\<close>.
\<close>

theorem template_degrees_in_range:
  assumes "t \<in> set (MAJOR_PROGRESSIONS @ MINOR_PROGRESSIONS)"
  shows "(\<forall>d \<in> set (snd t). 1 \<le> d \<and> d \<le> 7 \<and>
            degree_to_chord scale d mode \<noteq> Inl (ValueError ''Degree must be between 1 and 7'')) \<and>
         chords_of scale mode (snd t) \<noteq> Inl (ValueError ''Degree must be between 1 and 7'') \<and>
         generate_progression s out \<noteq> Inl (ValueError ''Degree must be between 1 and 7'')"
proof -
  have rng: "\<forall>d \<in> set (snd t). 1 \<le> d \<and> d \<le> 7"
    using table_degrees [OF assms] by blast
  then have a: "\<forall>d \<in> set (snd t). 1 \<le> d \<and> d \<le> 7 \<and>
            degree_to_chord scale d mode \<noteq> Inl (ValueError ''Degree must be between 1 and 7'')"
    using degree_to_chord_no_degree_error by blast
  have b: "chords_of scale mode (snd t) \<noteq> Inl (ValueError ''Degree must be between 1 and 7'')"
    by (rule chords_of_no_degree_error [OF rng])
  obtain r where "generate_progression s out = Inr r"
    using generate_progression_lines [of s out] by blast
  then have c: "generate_progression s out \<noteq> Inl (ValueError ''Degree must be between 1 and 7'')"
    by simp
  from a b c show ?thesis by blast
qed

theorem template_degrees_in_range_witness:
  "([''i'', ''VI'', ''III'', ''VII''], [1, 6, 3, 7]) \<in> set (MAJOR_PROGRESSIONS @ MINOR_PROGRESSIONS) \<and>
   (7::int) \<in> set [1, 6, 3, 7] \<and> 1 \<le> (7::int) \<and> (7::int) \<le> 7 \<and>
   degree_to_chord [''A'', ''B'', ''C'', ''D'', ''E'', ''F'', ''G''] 7 ''minor''
     \<noteq> Inl (ValueError ''Degree must be between 1 and 7'') \<and>
   chords_of [''A'', ''B'', ''C'', ''D'', ''E'', ''F'', ''G''] ''minor'' [1, 6, 3, 7]
     \<noteq> Inl (ValueError ''Degree must be between 1 and 7'')"
proof -
  let ?t = "([''i'', ''VI'', ''III'', ''VII''], [1, 6, 3, 7::int])"
  have h: "?t \<in> set (MAJOR_PROGRESSIONS @ MINOR_PROGRESSIONS)"
    by (simp add: MINOR_PROGRESSIONS_def)
  show ?thesis
    using h template_degrees_in_range
            [OF h, of "[''A'', ''B'', ''C'', ''D'', ''E'', ''F'', ''G'']" "''minor''" "sconst 0" "[]"]
    by simp
qed



subsection \<open>Modes other than major\<close>

text \<open>
  C10. A mode string other than \<open>major\<close>, valid or not, is treated as minor and never
  rejected: \<open>build_scale\<close> applies the minor offsets, \<open>degree_to_chord\<close> the minor
  quality table, and \<open>pick_progression\<close> draws from the minor progression table.
\<close>

theorem non_major_mode_is_minor:
  assumes "mode \<noteq> ''major''"
  shows "build_scale root mode = build_scale root ''minor'' \<and>
         (\<forall>k. list_index NOTES root = Some k \<longrightarrow>
            build_scale root mode
              = Inr (map (\<lambda>off. NOTES ! nat ((int k + off) mod 12)) MINOR_OFFSETS)) \<and>
         degree_to_chord scale d mode = degree_to_chord scale d ''minor'' \<and>
         (1 \<le> d \<and> d \<le> 7 \<and> length scale = 7 \<longrightarrow>
            degree_to_chord scale d mode
              = Inr (chord_name (scale ! nat (d - 1)) (MINOR_QUALITIES ! nat (d - 1)))) \<and>
         pick_progression mode s = choice MINOR_PROGRESSIONS s"
proof -
  have a: "build_scale root mode = build_scale root ''minor''"
    using assms by (simp add: build_scale_def)
  have b: "\<forall>k. list_index NOTES root = Some k \<longrightarrow>
            build_scale root mode
              = Inr (map (\<lambda>off. NOTES ! nat ((int k + off) mod 12)) MINOR_OFFSETS)"
    using assms build_scale_eq [of root _ mode] by simp
  have c: "degree_to_chord scale d mode = degree_to_chord scale d ''minor''"
    using assms by (simp add: degree_to_chord_def)
  have e: "1 \<le> d \<and> d \<le> 7 \<and> length scale = 7 \<longrightarrow>
            degree_to_chord scale d mode
              = Inr (chord_name (scale ! nat (d - 1)) (MINOR_QUALITIES ! nat (d - 1)))"
    using assms degree_to_chord_in_range [of d scale mode] by simp
  have f: "pick_progression mode s = choice MINOR_PROGRESSIONS s"
    using assms by (simp add: pick_progression_def)
  from a b c e f show ?thesis by blast
qed

theorem non_major_mode_is_minor_witness:
  "''dorian'' \<noteq> ''major'' \<and>
   list_index NOTES ''A'' = Some 9 \<and>
   build_scale ''A'' ''dorian'' = Inr [''A'', ''B'', ''C'', ''D'', ''E'', ''F'', ''G''] \<and>
   (1::int) \<le> 2 \<and> (2::int) \<le> 7 \<and> length [''A'', ''B'', ''C'', ''D'', ''E'', ''F'', ''G''] = 7 \<and>
   degree_to_chord [''A'', ''B'', ''C'', ''D'', ''E'', ''F'', ''G''] 2 ''dorian'' = Inr ''Bdim'' \<and>
   pick_progression ''dorian'' (sconst 1)
     = Inr (([''i'', ''iv'', ''v'', ''i''], [1, 4, 5, 1]), sconst 1)"
proof -
  let ?a = "[''A'', ''B'', ''C'', ''D'', ''E'', ''F'', ''G'']"
  have h: "''dorian'' \<noteq> ''major''" by simp
  have i: "list_index NOTES ''A'' = Some 9" by (simp add: NOTES_def)
  have m: "map (\<lambda>off. NOTES ! nat ((int 9 + off) mod 12)) MINOR_OFFSETS = ?a"
    by (simp add: NOTES_def MINOR_OFFSETS_def)
  have r: "(1::int) \<le> 2 \<and> (2::int) \<le> 7 \<and> length ?a = 7" by simp
  have q: "chord_name (?a ! nat (2 - 1)) (MINOR_QUALITIES ! nat (2 - 1)) = ''Bdim''"
    by (simp add: MINOR_QUALITIES_def chord_name_def)
  have c: "choice MINOR_PROGRESSIONS (sconst 1)
             = Inr (([''i'', ''iv'', ''v'', ''i''], [1, 4, 5, 1]), sconst 1)"
    by (simp add: choice_def MINOR_PROGRESSIONS_def)
  note t = non_major_mode_is_minor [OF h, of "''A''" ?a 2 "sconst 1"]
  from t i have "build_scale ''A'' ''dorian''
      = Inr (map (\<lambda>off. NOTES ! nat ((int 9 + off) mod 12)) MINOR_OFFSETS)"
    by blast
  then have x: "build_scale ''A'' ''dorian'' = Inr ?a"
    by (simp only: m)
  from t r have "degree_to_chord ?a 2 ''dorian''
      = Inr (chord_name (?a ! nat (2 - 1)) (MINOR_QUALITIES ! nat (2 - 1)))"
    by blast
  then have y: "degree_to_chord ?a 2 ''dorian'' = Inr ''Bdim''"
    by (simp only: q)
  from t have "pick_progression ''dorian'' (sconst 1) = choice MINOR_PROGRESSIONS (sconst 1)"
    by blast
  then have z: "pick_progression ''dorian'' (sconst 1)
      = Inr (([''i'', ''iv'', ''v'', ''i''], [1, 4, 5, 1]), sconst 1)"
    by (simp only: c)
  from h i x r y z show ?thesis by blast
qed

end
